theory Spec2Isabelle
  imports Complex_Main
begin

section \<open>The lazily loaded image component of \<open>src/Image/index.ts\<close>\<close>

subsection \<open>JavaScript values and truthiness\<close>

text \<open>
  The values the component tests with \<open>!\<close>, \<open>!!\<close> and \<open>||\<close>. Finite numbers are
  rationals (\<open>+0\<close> and \<open>-0\<close> are both \<open>JNum 0\<close>), \<open>NaN\<close> is a value of its own, and
  \<open>JObj\<close> stands for any object (always truthy).
\<close>

datatype jsval =
    JUndefined
  | JNull
  | JBool bool
  | JNaN
  | JNum rat
  | JStr string
  | JObj

fun truthy :: "jsval \<Rightarrow> bool" where
  "truthy JUndefined = False"
| "truthy JNull = False"
| "truthy (JBool b) = b"
| "truthy JNaN = False"
| "truthy (JNum x) = (x \<noteq> 0)"
| "truthy (JStr s) = (s \<noteq> [])"
| "truthy JObj = True"

text \<open>\<open>a || b\<close>: the left operand when it is truthy, the right one otherwise.\<close>

definition or_js :: "jsval \<Rightarrow> jsval \<Rightarrow> jsval" where
  "or_js a b = (if truthy a then a else b)"

subsection \<open>The host's intersection observer\<close>

text \<open>
  Modelled from the spec: the host's viewport-intersection facility (``register callback +
  options \<open>{threshold, rootMargin}\<close>, notification, unregister''), which the browser
  provides and the repository only calls. An observer object keeps the options it was
  built with and the elements it observes; \<open>observe\<close> registers an element,
  \<open>disconnect\<close> drops every registration. Elements are opaque handles.
\<close>

type_synonym element = nat

record IntersectionObserverInit =
  threshold :: jsval
  rootMargin :: jsval

record io_object =
  io_init :: IntersectionObserverInit
  io_targets :: "element list"

definition io_new :: "IntersectionObserverInit \<Rightarrow> io_object" where
  "io_new opts = \<lparr>io_init = opts, io_targets = []\<rparr>"

definition io_observe :: "element \<Rightarrow> io_object \<Rightarrow> io_object" where
  "io_observe el ob =
     ob\<lparr>io_targets := (if el \<in> set (io_targets ob) then io_targets ob
                        else io_targets ob @ [el])\<rparr>"

definition io_disconnect :: "io_object \<Rightarrow> io_object" where
  "io_disconnect ob = ob\<lparr>io_targets := []\<rparr>"

datatype js_error = TypeError | ReferenceError | RangeError | SyntaxError

text \<open>
  What the global name \<open>IntersectionObserver\<close> can hold: a plain value, or a constructor.
  A constructor is given by what it does with the options: it throws an error, or it
  accepts them (\<open>None\<close>) and the new observer has no registered element yet.
\<close>

datatype global_value =
    Plain jsval
  | Constructor "IntersectionObserverInit \<Rightarrow> js_error option"

fun truthy_global :: "global_value \<Rightarrow> bool" where
  "truthy_global (Plain v) = truthy v"
| "truthy_global (Constructor _) = True"

subsection \<open>Environment detection (lines 36 to 40)\<close>

text \<open>
  The global scope as the module sees it when it is loaded: \<open>window\<close> is absent
  (\<open>typeof window === "undefined"\<close>) or an object whose \<open>IntersectionObserver\<close>
  property holds some value.
\<close>

record window_obj =
  IntersectionObserver :: global_value

record global_ctx =
  window :: "window_obj option"

definition isSsr :: "global_ctx \<Rightarrow> bool" where
  "isSsr g = (window g = None)"

text \<open>
  \<open>isSsr ? false : !!(window as any).IntersectionObserver\<close>. The \<open>None\<close> branch of the
  inner case is never taken, because \<open>isSsr\<close> has excluded it.
\<close>

definition isIntersectionObserverAvailable :: "global_ctx \<Rightarrow> bool" where
  "isIntersectionObserverAvailable g =
     (if isSsr g then False
      else (case window g of
              None \<Rightarrow> False
            | Some w \<Rightarrow> truthy_global (IntersectionObserver w)))"

text \<open>
  \<open>new IntersectionObserver(callback, {threshold, rootMargin})\<close> (line 86). The name is
  not bound where there is no \<open>window\<close>; a value that is not a constructor cannot be
  called with \<open>new\<close>; a constructor may refuse the options.
\<close>

definition new_IntersectionObserver ::
  "global_ctx \<Rightarrow> IntersectionObserverInit \<Rightarrow> js_error + io_object" where
  "new_IntersectionObserver g opts =
     (case window g of
        None \<Rightarrow> Inl ReferenceError
      | Some w \<Rightarrow>
          (case IntersectionObserver w of
             Plain _ \<Rightarrow> Inl TypeError
           | Constructor accepts \<Rightarrow>
               (case accepts opts of
                  Some err \<Rightarrow> Inl err
                | None \<Rightarrow> Inr (io_new opts))))"

text \<open>
  Four concrete environments: a server; a browser without the observer; a browser whose
  observer takes a number from 0 to 1 as threshold and a string as margin, and throws
  otherwise; a browser where the global name holds an object that is not a constructor.
\<close>

definition standard_accepts :: "IntersectionObserverInit \<Rightarrow> js_error option" where
  "standard_accepts opts =
     (case threshold opts of
        JNum t \<Rightarrow>
          (if 0 \<le> t \<and> t \<le> 1
           then (case rootMargin opts of JStr _ \<Rightarrow> None | _ \<Rightarrow> Some SyntaxError)
           else Some RangeError)
      | _ \<Rightarrow> Some TypeError)"

definition server_ctx :: global_ctx where
  "server_ctx = \<lparr>window = None\<rparr>"

definition legacy_browser_ctx :: global_ctx where
  "legacy_browser_ctx = \<lparr>window = Some \<lparr>IntersectionObserver = Plain JUndefined\<rparr>\<rparr>"

definition browser_ctx :: global_ctx where
  "browser_ctx = \<lparr>window = Some \<lparr>IntersectionObserver = Constructor standard_accepts\<rparr>\<rparr>"

definition broken_browser_ctx :: global_ctx where
  "broken_browser_ctx = \<lparr>window = Some \<lparr>IntersectionObserver = Plain JObj\<rparr>\<rparr>"

subsection \<open>The two strategies (lines 114 to 150)\<close>

text \<open>
  \<open>type State = { lazyLoad?: boolean; inView: boolean; loaded: boolean }\<close>: the optional
  field is \<open>None\<close> when it is left out, and \<open>!lazyLoad\<close> is then true.
\<close>

record state =
  lazyLoad :: "bool option"
  inView :: bool
  loaded :: bool

definition imageAddStrategy :: "global_ctx \<Rightarrow> state \<Rightarrow> bool" where
  "imageAddStrategy g st =
     (if lazyLoad st \<noteq> Some True then True
      else if isSsr g then False
      else if isIntersectionObserverAvailable g then (inView st \<or> loaded st)
      else True)"

definition imageShowStrategy :: "global_ctx \<Rightarrow> state \<Rightarrow> bool" where
  "imageShowStrategy g st =
     (if lazyLoad st \<noteq> Some True then True
      else if isSsr g then False
      else if isIntersectionObserverAvailable g then loaded st
      else True)"

text \<open>What the callback reads of an \<open>IntersectionObserverEntry\<close>.\<close>

record entry =
  isIntersecting :: bool

subsection \<open>\<open>useInView\<close> (lines 79 to 112)\<close>

text \<open>
  The three refs of \<open>useInView\<close>, each field the \<open>.value\<close> of its ref. The observer
  object is reachable only through \<open>observer.value\<close>, so it is stored in the field.
\<close>

record tracker =
  observer_value :: "io_object option"
  elRef_value :: "element option"
  inView_value :: bool

definition useInView :: tracker where
  "useInView = \<lparr>observer_value = None, elRef_value = None, inView_value = False\<rparr>"

text \<open>
  The function given to \<open>new IntersectionObserver\<close> (lines 87 to 93). \<open>entries[0]\<close> of an
  empty array is \<open>undefined\<close>, and reading \<open>isIntersecting\<close> of it throws before anything
  is assigned.
\<close>

definition callback :: "entry list \<Rightarrow> 'a tracker_scheme \<Rightarrow> js_error + 'a tracker_scheme" where
  "callback entries s =
     (case entries of
        [] \<Rightarrow> Inl TypeError
      | img # _ \<Rightarrow>
          (if isIntersecting img \<and> observer_value s \<noteq> None
           then Inr (s\<lparr>inView_value := True,
                       observer_value := map_option io_disconnect (observer_value s)\<rparr>)
           else Inr s))"

text \<open>
  The mount hook (lines 84 to 103). When the constructor throws, \<open>observer.value\<close> has not
  been assigned and the hook ends with that error.
\<close>

definition onMounted ::
  "global_ctx \<Rightarrow> IntersectionObserverInit \<Rightarrow> 'a tracker_scheme \<Rightarrow> js_error + 'a tracker_scheme"
  where
  "onMounted g opts s =
     (if isIntersectionObserverAvailable g
      then (case new_IntersectionObserver g opts of
              Inl err \<Rightarrow> Inl err
            | Inr ob \<Rightarrow>
                (case elRef_value s of
                   None \<Rightarrow> Inr (s\<lparr>observer_value := Some ob\<rparr>)
                 | Some el \<Rightarrow> Inr (s\<lparr>observer_value := Some (io_observe el ob)\<rparr>)))
      else Inr s)"

definition onBeforeUnmount :: "global_ctx \<Rightarrow> 'a tracker_scheme \<Rightarrow> 'a tracker_scheme" where
  "onBeforeUnmount g s =
     (if isIntersectionObserverAvailable g \<and> observer_value s \<noteq> None
      then s\<lparr>observer_value := map_option io_disconnect (observer_value s)\<rparr>
      else s)"

subsection \<open>The component (lines 152 to 343)\<close>

text \<open>
  The props that \<open>setup\<close> and the two strategies read, as the parent passes them
  (\<open>JUndefined\<close> and \<open>None\<close> for a prop that is not passed); the other props only reach
  the markup. A prop that is not passed takes its declared default.
\<close>

record props =
  intersectionTreshold :: jsval
  intersectionThreshold :: jsval
  intersectionMargin :: jsval
  lazyLoad_prop :: "bool option"

definition with_default :: "jsval \<Rightarrow> jsval \<Rightarrow> jsval" where
  "with_default d v = (if v = JUndefined then d else v)"

definition props_intersectionTreshold :: "props \<Rightarrow> jsval" where
  "props_intersectionTreshold p = with_default (JNum 0) (intersectionTreshold p)"

definition props_intersectionThreshold :: "props \<Rightarrow> jsval" where
  "props_intersectionThreshold p = intersectionThreshold p"

definition props_intersectionMargin :: "props \<Rightarrow> jsval" where
  "props_intersectionMargin p = with_default (JStr ''0px 0px 0px 0px'') (intersectionMargin p)"

definition props_lazyLoad :: "props \<Rightarrow> bool" where
  "props_lazyLoad p = (case lazyLoad_prop p of None \<Rightarrow> True | Some b \<Rightarrow> b)"

text \<open>The argument \<open>setup\<close> gives to \<open>useInView\<close> (lines 204 to 207).\<close>

definition setup_options :: "props \<Rightarrow> IntersectionObserverInit" where
  "setup_options p =
     \<lparr>threshold = or_js (or_js (props_intersectionThreshold p) (props_intersectionTreshold p))
                         (JNum 0),
      rootMargin = or_js (props_intersectionMargin p) (JStr ''0px 0px 0px 0px'')\<rparr>"

text \<open>The state of one component instance: the tracker's refs and \<open>loaded\<close>.\<close>

record component = tracker +
  loaded_value :: bool

definition setup_state :: component where
  "setup_state = \<lparr>observer_value = None, elRef_value = None, inView_value = False,
            loaded_value = False\<rparr>"

definition handleLoad :: "component \<Rightarrow> component" where
  "handleLoad s = s\<lparr>loaded_value := True\<rparr>"

text \<open>
  What \<open>render\<close> decides from the state: whether the \<open>picture\<close> element is in the tree, and
  the opacities of the image and of the placeholder. It assigns nothing.
\<close>

record render_out =
  addImage :: bool
  showImage :: bool
  image_opacity :: nat
  placeholder_opacity :: nat

definition render :: "global_ctx \<Rightarrow> props \<Rightarrow> component \<Rightarrow> render_out" where
  "render g p s =
     (let st = \<lparr>lazyLoad = Some (props_lazyLoad p), inView = inView_value s,
                loaded = loaded_value s\<rparr>;
          add = imageAddStrategy g st;
          shw = imageShowStrategy g st
      in \<lparr>addImage = add, showImage = shw,
          image_opacity = (if shw then 1 else 0),
          placeholder_opacity = (if shw then 0 else 1)\<rparr>)"

subsection \<open>The operations on an instance\<close>

text \<open>
  Everything that can happen to an instance: the two lifecycle hooks, a call of the
  observer's callback, the \<open>load\<close> handler of the image, a render, and the framework
  binding the template ref \<open>elRef\<close>. A hook or a callback that throws has assigned nothing.
\<close>

datatype event =
    Mounted
  | BeforeUnmount
  | Intersection "entry list"
  | Load
  | Render
  | BindRef "element option"

definition step :: "global_ctx \<Rightarrow> props \<Rightarrow> event \<Rightarrow> component \<Rightarrow> component" where
  "step g p e s =
     (case e of
        Mounted \<Rightarrow> (case onMounted g (setup_options p) s of Inl _ \<Rightarrow> s | Inr s' \<Rightarrow> s')
      | BeforeUnmount \<Rightarrow> onBeforeUnmount g s
      | Intersection entries \<Rightarrow> (case callback entries s of Inl _ \<Rightarrow> s | Inr s' \<Rightarrow> s')
      | Load \<Rightarrow> handleLoad s
      | Render \<Rightarrow> s
      | BindRef r \<Rightarrow> s\<lparr>elRef_value := r\<rparr>)"

definition run :: "global_ctx \<Rightarrow> props \<Rightarrow> component \<Rightarrow> event list \<Rightarrow> component" where
  "run g p s es = foldl (\<lambda>s' e. step g p e s') s es"

text \<open>Whether the instance's observer still has a registered element.\<close>

definition observing :: "'a tracker_scheme \<Rightarrow> bool" where
  "observing s = (case observer_value s of None \<Rightarrow> False | Some ob \<Rightarrow> io_targets ob \<noteq> [])"

text \<open>
  Modelled from the spec: the host's notification (``unregister'' ends it, and ``any
  in-flight notification that raced the release is expected to be ignored by the host
  observation facility's own contract''). The host calls the callback of an observer
  only while that observer has a registered element.
\<close>

definition host_notify :: "global_ctx \<Rightarrow> props \<Rightarrow> entry list \<Rightarrow> component \<Rightarrow> component" where
  "host_notify g p entries s = (if observing s then step g p (Intersection entries) s else s)"

definition host_run :: "global_ctx \<Rightarrow> props \<Rightarrow> component \<Rightarrow> entry list list \<Rightarrow> component" where
  "host_run g p s ns = foldl (\<lambda>s' entries. host_notify g p entries s') s ns"

text \<open>
  Three concrete sets of props: nothing passed; an explicit \<open>intersectionThreshold\<close> of 0
  beside a deprecated \<open>intersectionTreshold\<close> of one half; an \<open>intersectionThreshold\<close> of
  three quarters beside the same deprecated value.
\<close>

definition no_props :: props where
  "no_props = \<lparr>intersectionTreshold = JUndefined, intersectionThreshold = JUndefined,
               intersectionMargin = JUndefined, lazyLoad_prop = None\<rparr>"

definition both_thresholds_props :: props where
  "both_thresholds_props =
     \<lparr>intersectionTreshold = JNum (1 / 2), intersectionThreshold = JNum 0,
      intersectionMargin = JUndefined, lazyLoad_prop = None\<rparr>"

definition new_threshold_props :: props where
  "new_threshold_props =
     \<lparr>intersectionTreshold = JNum (1 / 2), intersectionThreshold = JNum (3 / 4),
      intersectionMargin = JUndefined, lazyLoad_prop = None\<rparr>"

text \<open>An instance bound to element 0, before and after its mount hook in \<open>browser_ctx\<close>.\<close>

definition bound_example :: component where
  "bound_example = setup_state\<lparr>elRef_value := Some 0\<rparr>"

definition mounted_example :: component where
  "mounted_example =
     setup_state\<lparr>elRef_value := Some 0,
       observer_value := Some \<lparr>io_init = setup_options no_props, io_targets = [0]\<rparr>\<rparr>"

section \<open>Properties\<close>

subsection \<open>Environment\<close>

lemma server_ctx_flags: "isSsr server_ctx" "\<not> isIntersectionObserverAvailable server_ctx"
  by (simp_all add: server_ctx_def isSsr_def isIntersectionObserverAvailable_def)

lemma legacy_browser_ctx_flags:
  "\<not> isSsr legacy_browser_ctx" "\<not> isIntersectionObserverAvailable legacy_browser_ctx"
  by (simp_all add: legacy_browser_ctx_def isSsr_def isIntersectionObserverAvailable_def)

lemma browser_ctx_flags: "\<not> isSsr browser_ctx" "isIntersectionObserverAvailable browser_ctx"
  by (simp_all add: browser_ctx_def isSsr_def isIntersectionObserverAvailable_def)

text \<open>
  C9: the observer flag implies that the code is not running on a server; on a server
  (no \<open>window\<close>) the flag is false.
\<close>

theorem observer_available_not_ssr:
  "isIntersectionObserverAvailable g \<Longrightarrow> \<not> isSsr g"
  by (simp add: isIntersectionObserverAvailable_def split: if_splits)

theorem observer_available_not_ssr_witness:
  "isIntersectionObserverAvailable browser_ctx \<and> \<not> isSsr browser_ctx"
proof -
  have h: "isIntersectionObserverAvailable browser_ctx"
    by (rule browser_ctx_flags(2))
  from observer_available_not_ssr [OF h] h show ?thesis by simp
qed

subsection \<open>The strategies\<close>

text \<open>
  C4: when lazy loading is switched off (\<open>lazyLoad\<close> is \<open>false\<close>, or left out), both
  strategies return true, whatever the environment, \<open>inView\<close> and \<open>loaded\<close> are.
\<close>

theorem strategies_lazy_off:
  "lazyLoad st \<noteq> Some True \<Longrightarrow> imageAddStrategy g st \<and> imageShowStrategy g st"
  by (simp add: imageAddStrategy_def imageShowStrategy_def)

theorem strategies_lazy_off_witness:
  "imageAddStrategy server_ctx \<lparr>lazyLoad = Some False, inView = False, loaded = False\<rparr>
   \<and> imageShowStrategy server_ctx \<lparr>lazyLoad = Some False, inView = False, loaded = False\<rparr>"
proof -
  have h: "lazyLoad \<lparr>lazyLoad = Some False, inView = False, loaded = False\<rparr> \<noteq> Some True"
    by simp
  show ?thesis by (rule strategies_lazy_off [OF h])
qed

text \<open>
  C5: on a server, with lazy loading on, both strategies return false, whatever
  \<open>inView\<close> and \<open>loaded\<close> are.
\<close>

theorem strategies_ssr:
  "isSsr g \<Longrightarrow> lazyLoad st = Some True \<Longrightarrow>
     \<not> imageAddStrategy g st \<and> \<not> imageShowStrategy g st"
  by (simp add: imageAddStrategy_def imageShowStrategy_def)

theorem strategies_ssr_witness:
  "\<not> imageAddStrategy server_ctx \<lparr>lazyLoad = Some True, inView = True, loaded = True\<rparr>
   \<and> \<not> imageShowStrategy server_ctx \<lparr>lazyLoad = Some True, inView = True, loaded = True\<rparr>"
proof -
  have h: "lazyLoad \<lparr>lazyLoad = Some True, inView = True, loaded = True\<rparr> = Some True"
    by simp
  show ?thesis by (rule strategies_ssr [OF server_ctx_flags(1) h])
qed

text \<open>
  C6: in a browser that has the observer, with lazy loading on, the image is mounted
  exactly when it is in view or has loaded: not when both are false, and whenever one
  of them is true.
\<close>

theorem add_strategy_with_observer:
  "isIntersectionObserverAvailable g \<Longrightarrow> lazyLoad st = Some True \<Longrightarrow>
     imageAddStrategy g st = (inView st \<or> loaded st)"
  by (simp add: imageAddStrategy_def isIntersectionObserverAvailable_def split: if_splits)

theorem add_strategy_with_observer_witness:
  "\<not> imageAddStrategy browser_ctx \<lparr>lazyLoad = Some True, inView = False, loaded = False\<rparr>
   \<and> imageAddStrategy browser_ctx \<lparr>lazyLoad = Some True, inView = True, loaded = False\<rparr>
   \<and> imageAddStrategy browser_ctx \<lparr>lazyLoad = Some True, inView = False, loaded = True\<rparr>"
  using add_strategy_with_observer [OF browser_ctx_flags(2),
          of "\<lparr>lazyLoad = Some True, inView = False, loaded = False\<rparr>"]
        add_strategy_with_observer [OF browser_ctx_flags(2),
          of "\<lparr>lazyLoad = Some True, inView = True, loaded = False\<rparr>"]
        add_strategy_with_observer [OF browser_ctx_flags(2),
          of "\<lparr>lazyLoad = Some True, inView = False, loaded = True\<rparr>"]
  by simp

text \<open>
  C3: in a browser without the observer, with lazy loading on, the image is mounted
  whatever \<open>inView\<close> and \<open>loaded\<close> are.
\<close>

theorem add_strategy_without_observer:
  "\<not> isSsr g \<Longrightarrow> \<not> isIntersectionObserverAvailable g \<Longrightarrow> lazyLoad st = Some True \<Longrightarrow>
     imageAddStrategy g st"
  by (simp add: imageAddStrategy_def)

theorem add_strategy_without_observer_witness:
  "imageAddStrategy legacy_browser_ctx \<lparr>lazyLoad = Some True, inView = False, loaded = False\<rparr>"
proof -
  have h: "lazyLoad \<lparr>lazyLoad = Some True, inView = False, loaded = False\<rparr> = Some True"
    by simp
  show ?thesis
    by (rule add_strategy_without_observer
          [OF legacy_browser_ctx_flags(1) legacy_browser_ctx_flags(2) h])
qed

text \<open>
  C1, as the code has it: in a browser without the observer, with lazy loading on, the
  image is shown whatever \<open>loaded\<close> and \<open>inView\<close> are. The last branch of
  \<open>imageShowStrategy\<close> returns true, not \<open>loaded\<close>.
\<close>

theorem show_strategy_without_observer:
  "\<not> isSsr g \<Longrightarrow> \<not> isIntersectionObserverAvailable g \<Longrightarrow> lazyLoad st = Some True \<Longrightarrow>
     imageShowStrategy g st"
  by (simp add: imageShowStrategy_def)

theorem show_strategy_without_observer_witness:
  "imageShowStrategy legacy_browser_ctx \<lparr>lazyLoad = Some True, inView = True, loaded = False\<rparr>"
proof -
  have h: "lazyLoad \<lparr>lazyLoad = Some True, inView = True, loaded = False\<rparr> = Some True"
    by simp
  show ?thesis
    by (rule show_strategy_without_observer
          [OF legacy_browser_ctx_flags(1) legacy_browser_ctx_flags(2) h])
qed

text \<open>
  The claim C1 as it is written fails in that environment: before the image has loaded,
  \<open>imageShowStrategy\<close> does not return \<open>loaded\<close>.
\<close>

theorem show_strategy_not_loaded_counterexample:
  "imageShowStrategy legacy_browser_ctx \<lparr>lazyLoad = Some True, inView = False, loaded = False\<rparr>
     \<noteq> loaded \<lparr>lazyLoad = Some True, inView = False, loaded = False\<rparr>"
  by (simp add: imageShowStrategy_def legacy_browser_ctx_flags)

subsection \<open>The observer's threshold\<close>

text \<open>
  C10: the threshold given to the tracker is
  \<open>intersectionThreshold || intersectionTreshold || 0\<close>: a truthy \<open>intersectionThreshold\<close>
  is the threshold; otherwise a truthy \<open>intersectionTreshold\<close> is; otherwise 0. When
  \<open>intersectionThreshold\<close> is not passed or is 0, the result is
  \<open>intersectionTreshold || 0\<close>; so beside an explicit \<open>intersectionThreshold\<close> of 0, a
  nonzero deprecated \<open>intersectionTreshold\<close> is the threshold.
\<close>

theorem threshold_falls_back_to_deprecated:
  "threshold (setup_options p) =
     (if truthy (intersectionThreshold p) then intersectionThreshold p
      else if truthy (intersectionTreshold p) then intersectionTreshold p
      else JNum 0)
   \<and> (intersectionThreshold p = JUndefined \<or> intersectionThreshold p = JNum 0 \<longrightarrow>
        threshold (setup_options p) =
          (if truthy (intersectionTreshold p) then intersectionTreshold p else JNum 0))
   \<and> (intersectionThreshold p = JNum 0 \<and> intersectionTreshold p = JNum t \<and> t \<noteq> 0 \<longrightarrow>
        threshold (setup_options p) = JNum t)"
  by (auto simp add: setup_options_def or_js_def props_intersectionThreshold_def
        props_intersectionTreshold_def with_default_def)

theorem threshold_falls_back_to_deprecated_witness:
  "intersectionThreshold both_thresholds_props = JNum 0
   \<and> intersectionTreshold both_thresholds_props = JNum (1 / 2)
   \<and> threshold (setup_options both_thresholds_props) = JNum (1 / 2)
   \<and> threshold (setup_options new_threshold_props) = JNum (3 / 4)
   \<and> threshold (setup_options no_props) = JNum 0"
proof -
  have h: "intersectionThreshold both_thresholds_props = JNum 0
           \<and> intersectionTreshold both_thresholds_props = JNum (1 / 2) \<and> (1 / 2 :: rat) \<noteq> 0"
    by (simp add: both_thresholds_props_def)
  with threshold_falls_back_to_deprecated [of both_thresholds_props "1 / 2"]
  have a: "threshold (setup_options both_thresholds_props) = JNum (1 / 2)"
    by blast
  have b: "threshold (setup_options new_threshold_props) = JNum (3 / 4)"
    using threshold_falls_back_to_deprecated [of new_threshold_props 0]
    by (simp add: new_threshold_props_def)
  have c: "threshold (setup_options no_props) = JNum 0"
    using threshold_falls_back_to_deprecated [of no_props 0]
    by (simp add: no_props_def)
  from h a b c show ?thesis by simp
qed

subsection \<open>The tracker\<close>

text \<open>The refs a new instance gets from \<open>useInView\<close>, and what \<open>render\<close> hands on.\<close>

lemma setup_state_tracker: "tracker.truncate setup_state = useInView"
  by (simp add: setup_state_def useInView_def tracker.truncate_def)

lemma render_strategies:
  "addImage (render g p s) =
     imageAddStrategy g \<lparr>lazyLoad = Some (props_lazyLoad p), inView = inView_value s,
                         loaded = loaded_value s\<rparr>"
  "placeholder_opacity (render g p s) = (if showImage (render g p s) then 0 else 1)"
  "image_opacity (render g p s) = (if showImage (render g p s) then 1 else 0)"
  by (simp_all add: render_def Let_def)

text \<open>The mount hook: what it leaves when it returns, and where it throws.\<close>

lemma new_IntersectionObserver_result:
  "new_IntersectionObserver g opts = Inr ob \<Longrightarrow> ob = io_new opts"
  by (auto simp add: new_IntersectionObserver_def
        split: option.splits global_value.splits)

lemma onMounted_result:
  assumes "isIntersectionObserverAvailable g" and "onMounted g opts s = Inr s1"
  shows "s1 = s\<lparr>observer_value :=
                  Some (case elRef_value s of
                          None \<Rightarrow> io_new opts
                        | Some el \<Rightarrow> io_observe el (io_new opts))\<rparr>"
proof (cases "new_IntersectionObserver g opts")
  case (Inl err)
  with assms show ?thesis by (simp add: onMounted_def)
next
  case (Inr ob)
  then have "ob = io_new opts" by (rule new_IntersectionObserver_result)
  with Inr assms show ?thesis
    by (auto simp add: onMounted_def split: option.splits)
qed

lemma onMounted_not_constructor:
  assumes "window g = Some w" and "IntersectionObserver w = Plain v" and "truthy v"
  shows "onMounted g opts s = Inl TypeError"
  using assms
  by (simp add: onMounted_def isIntersectionObserverAvailable_def isSsr_def
        new_IntersectionObserver_def)

lemma onMounted_broken_browser:
  "isIntersectionObserverAvailable broken_browser_ctx"
  "onMounted broken_browser_ctx opts s = Inl TypeError"
  "step broken_browser_ctx p Mounted c = c"
  by (simp_all add: step_def onMounted_def isIntersectionObserverAvailable_def isSsr_def
        new_IntersectionObserver_def broken_browser_ctx_def)

lemma onMounted_unavailable:
  "\<not> isIntersectionObserverAvailable g \<Longrightarrow> onMounted g opts s = Inr s"
  by (simp add: onMounted_def)

lemma onMounted_browser_example:
  "onMounted browser_ctx (setup_options no_props) bound_example = Inr mounted_example"
  by (simp add: onMounted_def new_IntersectionObserver_def browser_ctx_def
        isIntersectionObserverAvailable_def isSsr_def standard_accepts_def
        setup_options_def no_props_def or_js_def with_default_def
        props_intersectionThreshold_def props_intersectionTreshold_def
        props_intersectionMargin_def bound_example_def mounted_example_def
        setup_state_def io_new_def io_observe_def)

lemma step_Mounted_cases:
  "step g p Mounted s = s
   \<or> (isIntersectionObserverAvailable g
      \<and> onMounted g (setup_options p) s = Inr (step g p Mounted s))"
  by (cases "onMounted g (setup_options p) s")
     (auto simp add: step_def onMounted_def split: if_splits)

lemma step_Mounted_fields:
  "inView_value (step g p Mounted s) = inView_value s"
  "loaded_value (step g p Mounted s) = loaded_value s"
  "elRef_value (step g p Mounted s) = elRef_value s"
  using step_Mounted_cases [of g p s]
  by (auto dest: onMounted_result)

lemma step_inView_mono: "inView_value s \<Longrightarrow> inView_value (step g p e s)"
proof (cases e)
  case Mounted
  assume "inView_value s"
  with Mounted show ?thesis by (simp add: step_Mounted_fields)
qed (simp_all add: step_def onBeforeUnmount_def callback_def handleLoad_def
       split: list.splits)

lemma step_loaded_mono: "loaded_value s \<Longrightarrow> loaded_value (step g p e s)"
proof (cases e)
  case Mounted
  assume "loaded_value s"
  with Mounted show ?thesis by (simp add: step_Mounted_fields)
qed (simp_all add: step_def onBeforeUnmount_def callback_def handleLoad_def
       split: list.splits)

lemma step_keeps_observer: "observer_value s \<noteq> None \<Longrightarrow> observer_value (step g p e s) \<noteq> None"
proof (cases e)
  case Mounted
  assume "observer_value s \<noteq> None"
  with Mounted step_Mounted_cases [of g p s] show ?thesis
    by (auto dest: onMounted_result)
qed (simp_all add: step_def onBeforeUnmount_def callback_def handleLoad_def
       split: list.splits)

lemma run_Nil: "run g p s [] = s"
  by (simp add: run_def)

lemma run_Cons: "run g p s (e # es) = run g p (step g p e s) es"
  by (simp add: run_def)

lemma run_append: "run g p s (es @ fs) = run g p (run g p s es) fs"
  by (simp add: run_def)

lemma run_inView_mono: "inView_value s \<Longrightarrow> inView_value (run g p s es)"
proof (induction es arbitrary: s)
  case Nil
  then show ?case by (simp add: run_Nil)
next
  case (Cons e es)
  from Cons.prems have "inView_value (step g p e s)" by (rule step_inView_mono)
  then show ?case by (simp add: run_Cons Cons.IH)
qed

lemma run_loaded_mono: "loaded_value s \<Longrightarrow> loaded_value (run g p s es)"
proof (induction es arbitrary: s)
  case Nil
  then show ?case by (simp add: run_Nil)
next
  case (Cons e es)
  from Cons.prems have "loaded_value (step g p e s)" by (rule step_loaded_mono)
  then show ?case by (simp add: run_Cons Cons.IH)
qed

lemma run_keeps_observer: "observer_value s \<noteq> None \<Longrightarrow> observer_value (run g p s es) \<noteq> None"
proof (induction es arbitrary: s)
  case Nil
  then show ?case by (simp add: run_Nil)
next
  case (Cons e es)
  from Cons.prems have "observer_value (step g p e s) \<noteq> None" by (rule step_keeps_observer)
  then show ?case by (simp add: run_Cons Cons.IH)
qed

text \<open>
  A call of the callback with an intersecting first entry, on an instance that has an
  observer: \<open>inView\<close> is set and that observer is disconnected.
\<close>

lemma intersection_latch_step:
  assumes "observer_value s \<noteq> None" and "isIntersecting e"
  shows "step g p (Intersection (e # es)) s =
           s\<lparr>inView_value := True,
             observer_value := map_option io_disconnect (observer_value s)\<rparr>"
  using assms by (simp add: step_def callback_def)

text \<open>Once the callback has latched and disconnected, calling it again changes nothing.\<close>

lemma intersection_after_latch:
  assumes "inView_value s" and "\<not> observing s"
  shows "step g p (Intersection entries) s = s"
proof (cases "observer_value s")
  case None
  then show ?thesis
    by (simp add: step_def callback_def split: list.splits)
next
  case (Some ob)
  with assms(2) have "io_targets ob = []"
    by (simp add: observing_def)
  then have "io_disconnect ob = ob"
    by (simp add: io_disconnect_def)
  with Some assms(1) show ?thesis
    by (simp add: step_def callback_def split: list.splits)
qed

lemma intersections_after_latch:
  assumes "inView_value s" and "\<not> observing s"
  shows "run g p s (map Intersection ns) = s"
proof (induction ns)
  case Nil
  show ?case by (simp add: run_Nil)
next
  case (Cons n ns)
  from assms have "step g p (Intersection n) s = s" by (rule intersection_after_latch)
  with Cons.IH show ?case by (simp add: run_Cons)
qed

text \<open>An observer without a registered element gets nothing from the host.\<close>

lemma host_run_not_observing: "\<not> observing s \<Longrightarrow> host_run g p s ns = s"
  by (induction ns) (simp_all add: host_run_def host_notify_def)

text \<open>
  The callback does not ask whether the instance is still mounted: called after the
  unmount hook with an intersecting first entry, it sets \<open>inView\<close>.
\<close>

lemma callback_after_unmount_sets_inView:
  assumes "isIntersectionObserverAvailable g"
    and "onMounted g (setup_options p) s0 = Inr s1"
    and "isIntersecting e"
  shows "inView_value (step g p (Intersection (e # es)) (step g p BeforeUnmount s1))"
proof -
  from assms(1,2) have "observer_value s1 \<noteq> None"
    by (auto dest: onMounted_result)
  then have "observer_value (step g p BeforeUnmount s1) \<noteq> None"
    by (rule step_keeps_observer)
  from intersection_latch_step [OF this assms(3)] show ?thesis by simp
qed

text \<open>
  C7: after the mount hook has returned with the observer created (the facility is
  available and the constructor did not throw), and after any further operations, a call
  of the callback whose first entry is intersecting sets \<open>inView\<close> and disconnects that
  observer in the same call; any further calls of the callback, and any further
  notifications of the host, leave the state as it is.
\<close>

theorem intersection_latches_once:
  assumes "isIntersectionObserverAvailable g"
    and "onMounted g (setup_options p) s0 = Inr s1"
    and "isIntersecting e"
  shows "observer_value s1 \<noteq> None
         \<and> inView_value s1 = inView_value s0
         \<and> observing s1 = (elRef_value s0 \<noteq> None)
         \<and> step g p (Intersection (e # es)) (run g p s1 pre) =
             (run g p s1 pre)\<lparr>inView_value := True,
                observer_value := map_option io_disconnect (observer_value (run g p s1 pre))\<rparr>
         \<and> inView_value (step g p (Intersection (e # es)) (run g p s1 pre))
         \<and> observer_value (step g p (Intersection (e # es)) (run g p s1 pre)) \<noteq> None
         \<and> \<not> observing (step g p (Intersection (e # es)) (run g p s1 pre))
         \<and> run g p (step g p (Intersection (e # es)) (run g p s1 pre)) (map Intersection ns)
             = step g p (Intersection (e # es)) (run g p s1 pre)
         \<and> host_run g p (step g p (Intersection (e # es)) (run g p s1 pre)) ns
             = step g p (Intersection (e # es)) (run g p s1 pre)"
proof -
  let ?s2 = "run g p s1 pre"
  let ?s3 = "step g p (Intersection (e # es)) ?s2"
  note m = onMounted_result [OF assms(1,2)]
  from m have a: "observer_value s1 \<noteq> None" by simp
  from m have b: "inView_value s1 = inView_value s0" by simp
  from m have c: "observing s1 = (elRef_value s0 \<noteq> None)"
    by (cases "elRef_value s0") (simp_all add: observing_def io_observe_def io_new_def)
  from a have o2: "observer_value ?s2 \<noteq> None" by (rule run_keeps_observer)
  note d = intersection_latch_step [OF o2 assms(3), of g p es]
  from d have f: "inView_value ?s3" by simp
  from d o2 have h: "observer_value ?s3 \<noteq> None" by simp
  from d o2 have i: "\<not> observing ?s3"
    by (auto simp add: observing_def io_disconnect_def)
  have j: "run g p ?s3 (map Intersection ns) = ?s3"
    by (rule intersections_after_latch [OF f i])
  have k: "host_run g p ?s3 ns = ?s3"
    by (rule host_run_not_observing [OF i])
  from a b c d f h i j k show ?thesis by blast
qed

theorem intersection_latches_once_witness:
  "isIntersectionObserverAvailable browser_ctx
   \<and> onMounted browser_ctx (setup_options no_props) bound_example = Inr mounted_example
   \<and> \<not> inView_value bound_example
   \<and> observing mounted_example
   \<and> \<not> inView_value
         (run browser_ctx no_props mounted_example [Intersection [\<lparr>isIntersecting = False\<rparr>]])
   \<and> inView_value
         (step browser_ctx no_props (Intersection [\<lparr>isIntersecting = True\<rparr>])
            (run browser_ctx no_props mounted_example [Intersection [\<lparr>isIntersecting = False\<rparr>]]))
   \<and> \<not> observing
         (step browser_ctx no_props (Intersection [\<lparr>isIntersecting = True\<rparr>])
            (run browser_ctx no_props mounted_example [Intersection [\<lparr>isIntersecting = False\<rparr>]]))
   \<and> run browser_ctx no_props
         (step browser_ctx no_props (Intersection [\<lparr>isIntersecting = True\<rparr>])
            (run browser_ctx no_props mounted_example [Intersection [\<lparr>isIntersecting = False\<rparr>]]))
         (map Intersection [[\<lparr>isIntersecting = True\<rparr>]])
       = step browser_ctx no_props (Intersection [\<lparr>isIntersecting = True\<rparr>])
           (run browser_ctx no_props mounted_example [Intersection [\<lparr>isIntersecting = False\<rparr>]])"
proof -
  have h: "isIntersecting \<lparr>isIntersecting = True\<rparr>" by simp
  have n: "\<not> inView_value bound_example"
    by (simp add: bound_example_def setup_state_def)
  have q: "\<not> inView_value
         (run browser_ctx no_props mounted_example [Intersection [\<lparr>isIntersecting = False\<rparr>]])"
    by (simp add: run_def step_def callback_def mounted_example_def setup_state_def)
  have r: "elRef_value bound_example \<noteq> None"
    by (simp add: bound_example_def)
  from intersection_latches_once [OF browser_ctx_flags(2) onMounted_browser_example h,
         where pre = "[Intersection [\<lparr>isIntersecting = False\<rparr>]]" and es = "[]"
           and ns = "[[\<lparr>isIntersecting = True\<rparr>]]"]
       browser_ctx_flags(2) onMounted_browser_example n q r
  show ?thesis by blast
qed

text \<open>
  C2, as the code has it: the unmount hook disconnects the observer, so that the host,
  which notifies an observer only while it has a registered element, never calls the
  callback of an unmounted instance, and \<open>inView\<close> stays false. The callback itself does
  not ask whether the instance is still mounted.
\<close>

theorem unmounted_tracker_gets_no_notification:
  "\<not> observing (run g p setup_state [BindRef el, Mounted, BeforeUnmount])
   \<and> host_run g p (run g p setup_state [BindRef el, Mounted, BeforeUnmount]) ns
       = run g p setup_state [BindRef el, Mounted, BeforeUnmount]
   \<and> \<not> inView_value (host_run g p (run g p setup_state [BindRef el, Mounted, BeforeUnmount]) ns)"
proof -
  let ?bound = "step g p (BindRef el) setup_state"
  let ?mounted = "step g p Mounted ?bound"
  let ?final = "run g p setup_state [BindRef el, Mounted, BeforeUnmount]"
  have s: "?final = step g p BeforeUnmount ?mounted"
    by (simp add: run_def)
  have o0: "observer_value ?bound = None"
    by (simp add: step_def setup_state_def)
  have "\<not> observing (step g p BeforeUnmount ?mounted)"
  proof (cases "?mounted = ?bound")
    case True
    have "observer_value (step g p BeforeUnmount ?bound) = None"
      using o0 by (simp add: step_def [of g p BeforeUnmount] onBeforeUnmount_def)
    with True show ?thesis
      by (simp add: observing_def)
  next
    case False
    with step_Mounted_cases [of g p ?bound]
    have av: "isIntersectionObserverAvailable g"
      and m: "onMounted g (setup_options p) ?bound = Inr ?mounted"
      by blast+
    from onMounted_result [OF av m] obtain ob where ob: "observer_value ?mounted = Some ob"
      by (cases "elRef_value ?bound") auto
    with av have "observer_value (step g p BeforeUnmount ?mounted) = Some (io_disconnect ob)"
      by (simp add: step_def [of g p BeforeUnmount] onBeforeUnmount_def)
    then show ?thesis
      by (simp add: observing_def io_disconnect_def)
  qed
  with s have a: "\<not> observing ?final" by simp
  have "\<not> inView_value ?bound"
    by (simp add: step_def setup_state_def)
  then have "\<not> inView_value ?mounted"
    by (simp add: step_Mounted_fields)
  then have "\<not> inView_value (step g p BeforeUnmount ?mounted)"
    by (simp add: step_def [of g p BeforeUnmount] onBeforeUnmount_def)
  with s have b: "\<not> inView_value ?final" by simp
  from a have c: "host_run g p ?final ns = ?final" by (rule host_run_not_observing)
  from a b c show ?thesis by simp
qed

text \<open>
  The claim C2 as it is written fails when the callback is called after the unmount hook:
  \<open>observer.value\<close> still holds the observer, the guard of line 89 passes, and \<open>inView\<close>
  becomes true.
\<close>

theorem callback_after_unmount_counterexample:
  "inView_value (run browser_ctx no_props setup_state
     [BindRef (Some 0), Mounted, BeforeUnmount, Intersection [\<lparr>isIntersecting = True\<rparr>]])"
proof -
  have "step browser_ctx no_props (BindRef (Some 0)) setup_state = bound_example"
    by (simp add: step_def bound_example_def)
  then have "run browser_ctx no_props setup_state
              [BindRef (Some 0), Mounted, BeforeUnmount, Intersection [\<lparr>isIntersecting = True\<rparr>]]
             = step browser_ctx no_props (Intersection [\<lparr>isIntersecting = True\<rparr>])
                 (step browser_ctx no_props BeforeUnmount mounted_example)"
    by (simp add: run_def step_def [of _ _ Mounted] onMounted_browser_example)
  then show ?thesis
    by (simp add: step_def onBeforeUnmount_def callback_def mounted_example_def
          browser_ctx_flags)
qed

text \<open>
  C8: \<open>inView\<close> and \<open>loaded\<close> start false, and no operation on an instance (mount hook,
  unmount hook, observer callback, load handler, render, binding of the template ref)
  takes either of them from true back to false, in one step or in any sequence of steps.
\<close>

theorem latches_are_monotonic:
  "\<not> inView_value setup_state \<and> \<not> loaded_value setup_state
   \<and> (inView_value s \<longrightarrow> inView_value (step g p e s))
   \<and> (loaded_value s \<longrightarrow> loaded_value (step g p e s))
   \<and> (inView_value s \<longrightarrow> inView_value (run g p s es))
   \<and> (loaded_value s \<longrightarrow> loaded_value (run g p s es))"
  by (simp add: setup_state_def step_inView_mono step_loaded_mono run_inView_mono
        run_loaded_mono)

theorem latches_are_monotonic_witness:
  "inView_value (step browser_ctx no_props BeforeUnmount
       (setup_state\<lparr>inView_value := True, loaded_value := True\<rparr>))
   \<and> loaded_value (step browser_ctx no_props BeforeUnmount
       (setup_state\<lparr>inView_value := True, loaded_value := True\<rparr>))
   \<and> inView_value (run browser_ctx no_props
       (setup_state\<lparr>inView_value := True, loaded_value := True\<rparr>)
       [Mounted, Intersection [\<lparr>isIntersecting = False\<rparr>], Render, BeforeUnmount])
   \<and> loaded_value (run browser_ctx no_props
       (setup_state\<lparr>inView_value := True, loaded_value := True\<rparr>)
       [Mounted, Intersection [\<lparr>isIntersecting = False\<rparr>], Render, BeforeUnmount])"
  using latches_are_monotonic
    [where s = "setup_state\<lparr>inView_value := True, loaded_value := True\<rparr>"
       and g = browser_ctx and p = no_props and e = BeforeUnmount
       and es = "[Mounted, Intersection [\<lparr>isIntersecting = False\<rparr>], Render, BeforeUnmount]"]
  by simp

end
